theory Spec2Isabelle
  imports Main "HOL-Library.Sublist"
begin

section \<open>The clone dialog of cockpit-machines (vmCloneDialog.tsx)\<close>

text \<open>
  The component \<^verbatim>\<open>CloneDialog\<close> keeps seven React state hooks, runs one effect when
  it is mounted (the filesystem probe, a chain of promises over \<^verbatim>\<open>cockpit.spawn\<close>)
  and starts \<^verbatim>\<open>virt-clone\<close> from \<^verbatim>\<open>onClone\<close>. The embedding has three layers:
  the string functions of JavaScript the code calls, the probe as a function over an
  explicit state with the commands' results given by an environment, and the dialog as
  a machine stepping on the events of the user and of the clone process.
\<close>

subsection \<open>JavaScript strings\<close>

text \<open>
  A string is a list of characters, each a code unit below 256. Of the characters
  that \<^verbatim>\<open>String.prototype.trim\<close> strips and the class \<^verbatim>\<open>\s\<close> matches (the same
  set: WhiteSpace and LineTerminator), those below 256 are TAB, LF, VT, FF, CR, SPACE
  and the no-break space U+00A0.
\<close>

definition is_space :: "char \<Rightarrow> bool" where
  "is_space c \<longleftrightarrow>
     c = CHR 0x09 \<or> c = CHR 0x0A \<or> c = CHR 0x0B \<or> c = CHR 0x0C \<or> c = CHR 0x0D \<or>
     c = CHR 0x20 \<or> c = CHR 0xA0"

text \<open>\<^verbatim>\<open>s.trim()\<close>: the white space at both ends is removed.\<close>

definition trim :: "string \<Rightarrow> string" where
  "trim s = rev (dropWhile is_space (rev (dropWhile is_space s)))"

text \<open>
  \<^verbatim>\<open>s.split(d)\<close> for a separator \<open>d\<close> of one character: the pieces between the
  occurrences of \<open>d\<close>, the empty ones too; the empty string gives one empty piece, so
  the result is never empty.
\<close>

fun split_char :: "char \<Rightarrow> string \<Rightarrow> string list" where
  "split_char d [] = [[]]"
| "split_char d (c # cs) =
     (if c = d then [] # split_char d cs
      else (case split_char d cs of [] \<Rightarrow> [[c]] | w # ws \<Rightarrow> (c # w) # ws))"

text \<open>
  \<^verbatim>\<open>s.split(/\s+/)\<close>: the pieces between the maximal runs of white space. A run at
  the start leaves an empty first piece, a run at the end an empty last piece, and
  the empty string gives one empty piece.
\<close>

function split_ws :: "string \<Rightarrow> string list" where
  "split_ws [] = [[]]"
| "split_ws (c # cs) =
     (if is_space c then [] # split_ws (dropWhile is_space cs)
      else (case split_ws cs of [] \<Rightarrow> [[c]] | w # ws \<Rightarrow> (c # w) # ws))"
  by pat_completeness auto
termination
  by (relation "measure length") (auto simp: less_Suc_eq_le length_dropWhile_le)

text \<open>The line feed, the separator of \<^verbatim>\<open>split('\n')\<close>.\<close>

abbreviation LF :: char where
  "LF \<equiv> CHR 0x0A"

subsection \<open>The disk locator\<close>

text \<open>
  The loop over the rows of the \<^verbatim>\<open>virsh domblklist\<close> output, from index 1 on:
  \<^verbatim>\<open>parts = lines[i].trim().split(/\s+/)\<close>, and the first row with
  \<^verbatim>\<open>parts.length >= 2 && parts[1] && parts[1] !== '-'\<close> gives \<^verbatim>\<open>diskPath = parts[1]\<close>
  and ends the loop. A string is truthy when it is not empty. \<open>diskPath\<close> starts as
  the empty string and stays so when no row matches.
\<close>

fun scan_rows :: "string list \<Rightarrow> string" where
  "scan_rows [] = []"
| "scan_rows (l # ls) =
     (let parts = split_ws (trim l) in
      if 2 \<le> length parts \<and> parts ! 1 \<noteq> [] \<and> parts ! 1 \<noteq> ''-''
      then parts ! 1 else scan_rows ls)"

definition locate_disk :: "string \<Rightarrow> string" where
  "locate_disk output = (let lines = split_char LF output in scan_rows (drop 1 lines))"

text \<open>
  The locator in the words of the specification. The tokens of a row are its maximal
  runs of characters that are not white space; the path field is the second token.
  The locator skips the header line and answers with the path field of the first
  later row that has at least two tokens and whose path field is neither empty nor
  the dash; it answers nothing when there is no such row.
\<close>

function spec_tokens :: "string \<Rightarrow> string list" where
  "spec_tokens s =
     (let r = dropWhile is_space s in
      if r = [] then []
      else takeWhile (\<lambda>c. \<not> is_space c) r # spec_tokens (dropWhile (\<lambda>c. \<not> is_space c) r))"
  by pat_completeness auto
termination
proof (relation "measure length", goal_cases)
  case 1
  show ?case by simp
next
  case (2 s r)
  then obtain c cs where r: "r = c # cs" and c: "\<not> is_space c"
    by (metis hd_dropWhile list.exhaust_sel)
  have "length (dropWhile (\<lambda>c. \<not> is_space c) r) \<le> length cs"
    using r c by (simp add: length_dropWhile_le)
  moreover have "length r \<le> length s"
    using 2 by (simp add: length_dropWhile_le)
  ultimately show ?case using r by simp
qed

declare spec_tokens.simps [simp del]

definition spec_row_ok :: "string \<Rightarrow> bool" where
  "spec_row_ok row \<longleftrightarrow>
     2 \<le> length (spec_tokens row) \<and> spec_tokens row ! 1 \<noteq> [] \<and> spec_tokens row ! 1 \<noteq> ''-''"

definition spec_locate :: "string \<Rightarrow> string option" where
  "spec_locate output =
     (case find spec_row_ok (drop 1 (split_char LF output)) of
        None \<Rightarrow> None
      | Some row \<Rightarrow> Some (spec_tokens row ! 1))"

subsection \<open>Processes\<close>

text \<open>
  A call of \<^verbatim>\<open>cockpit.spawn(argv, options)\<close>. The option \<^verbatim>\<open>superuser\<close> is
  \<^verbatim>\<open>"try"\<close>, \<^verbatim>\<open>false\<close> or absent; \<^verbatim>\<open>err\<close> is \<^verbatim>\<open>"message"\<close> or absent; \<^verbatim>\<open>pty\<close> is
  \<^verbatim>\<open>true\<close> or absent.
\<close>

datatype superuser = Try | No | Unset

record spawn_call =
  argv :: "string list"
  superuser :: superuser
  err :: "string option"
  pty :: bool

text \<open>\<^verbatim>\<open>{ superuser: connectionName === "system" ? "try" : false }\<close>\<close>

definition su :: "string \<Rightarrow> superuser" where
  "su connectionName = (if connectionName = ''system'' then Try else No)"

definition virsh_call :: "string \<Rightarrow> string \<Rightarrow> spawn_call" where
  "virsh_call name connectionName =
     \<lparr>argv = [''virsh'', ''--connect'', ''qemu:///'' @ connectionName, ''domblklist'', name],
      superuser = su connectionName, err = None, pty = False\<rparr>"

definition df_call :: "string \<Rightarrow> string \<Rightarrow> spawn_call" where
  "df_call connectionName diskPath =
     \<lparr>argv = [''df'', ''--output=fstype'', diskPath],
      superuser = su connectionName, err = None, pty = False\<rparr>"

definition cp_call :: "string \<Rightarrow> string \<Rightarrow> spawn_call" where
  "cp_call connectionName diskPath =
     \<lparr>argv = [''cp'', ''--reflink=always'', diskPath, diskPath @ ''.test''],
      superuser = su connectionName, err = Some ''message'', pty = False\<rparr>"

definition rm_call :: "string \<Rightarrow> string \<Rightarrow> spawn_call" where
  "rm_call connectionName diskPath =
     \<lparr>argv = [''rm'', ''-f'', diskPath @ ''.test''],
      superuser = su connectionName, err = None, pty = False\<rparr>"

text \<open>
  What the processes answer is not the dialog's to decide: an environment gives, for
  each call, the error the promise is rejected with (\<open>Inl\<close>) or the output it is
  resolved with (\<open>Inr\<close>).
\<close>

type_synonym env = "spawn_call \<Rightarrow> string + string"

subsection \<open>The state of the dialog\<close>

text \<open>
  \<^verbatim>\<open>Validation\<close> and \<^verbatim>\<open>DialogError\<close> are objects with one optional string
  property each; an object is the list of its properties, empty for \<^verbatim>\<open>{}\<close>.
\<close>

type_synonym obj = "(string \<times> string) list"

record FileSystemInfo =
  hasReflink :: bool
  fsType :: string

text \<open>
  The seven state hooks, and what the component has done to the world around it: the
  processes it has spawned, in order, the lines it has written to the console, and
  whether \<^verbatim>\<open>Dialogs.close\<close> has been called.
\<close>

record state =
  newVmName :: string
  inProgress :: bool
  virtCloneOutput :: string
  error :: obj
  fsInfo :: FileSystemInfo
  useReflink :: bool
  isCheckingFs :: bool
  spawned :: "spawn_call list"
  console :: "string list list"
  dialog_closed :: bool

definition init :: "string \<Rightarrow> state" where
  "init name =
     \<lparr>newVmName = name @ ''-clone'', inProgress = False, virtCloneOutput = [],
      error = [], fsInfo = \<lparr>hasReflink = False, fsType = []\<rparr>, useReflink = False,
      isCheckingFs = True, spawned = [], console = [], dialog_closed = False\<rparr>"

definition setInProgress :: "bool \<Rightarrow> state \<Rightarrow> state" where
  "setInProgress v s = s\<lparr>inProgress := v\<rparr>"

definition setVirtCloneOutput :: "string \<Rightarrow> state \<Rightarrow> state" where
  "setVirtCloneOutput v s = s\<lparr>virtCloneOutput := v\<rparr>"

definition dialogErrorSet :: "obj \<Rightarrow> state \<Rightarrow> state" where
  "dialogErrorSet v s = s\<lparr>error := v\<rparr>"

definition setFsInfo :: "FileSystemInfo \<Rightarrow> state \<Rightarrow> state" where
  "setFsInfo v s = s\<lparr>fsInfo := v\<rparr>"

definition setUseReflink :: "bool \<Rightarrow> state \<Rightarrow> state" where
  "setUseReflink v s = s\<lparr>useReflink := v\<rparr>"

definition setIsCheckingFs :: "bool \<Rightarrow> state \<Rightarrow> state" where
  "setIsCheckingFs v s = s\<lparr>isCheckingFs := v\<rparr>"

definition setNewVmName :: "string \<Rightarrow> state \<Rightarrow> state" where
  "setNewVmName v s = s\<lparr>newVmName := v\<rparr>"

definition console_log :: "string list \<Rightarrow> state \<Rightarrow> state" where
  "console_log args s = s\<lparr>console := console s @ [args]\<rparr>"

definition Dialogs_close :: "state \<Rightarrow> state" where
  "Dialogs_close s = s\<lparr>dialog_closed := True\<rparr>"

subsection \<open>Promises\<close>

text \<open>
  A promise chain runs from a state to a settled promise and the state its handlers
  have left: rejected with an error (\<open>Inl\<close>) or resolved with a value (\<open>Inr\<close>).
  \<^verbatim>\<open>then\<close> runs its handler on a resolved promise and passes a rejection on;
  \<^verbatim>\<open>catch\<close> runs its handler on a rejection, whether it comes from the promise
  or from a \<^verbatim>\<open>then\<close> handler before it; \<^verbatim>\<open>finally\<close> runs in both cases and
  keeps the outcome.
\<close>

type_synonym 'a promise = "state \<Rightarrow> (string + 'a) \<times> state"

definition resolve :: "'a \<Rightarrow> 'a promise" where
  "resolve v s = (Inr v, s)"

definition effect :: "(state \<Rightarrow> state) \<Rightarrow> unit promise" where
  "effect f s = (Inr (), f s)"

definition then_p :: "'a promise \<Rightarrow> ('a \<Rightarrow> 'b promise) \<Rightarrow> 'b promise" where
  "then_p p k s = (case p s of (Inl e, s') \<Rightarrow> (Inl e, s') | (Inr v, s') \<Rightarrow> k v s')"

definition catch_p :: "'a promise \<Rightarrow> (string \<Rightarrow> 'a promise) \<Rightarrow> 'a promise" where
  "catch_p p h s = (case p s of (Inl e, s') \<Rightarrow> h e s' | (Inr v, s') \<Rightarrow> (Inr v, s'))"

definition finally_p :: "'a promise \<Rightarrow> (state \<Rightarrow> state) \<Rightarrow> 'a promise" where
  "finally_p p f s = (case p s of (r, s') \<Rightarrow> (r, f s'))"

text \<open>
  \<^verbatim>\<open>cockpit.spawn\<close>: the call is recorded and the promise settles as the
  environment says. A call whose promise the code drops (the \<^verbatim>\<open>rm -f\<close>) is
  recorded only: whatever it answers reaches no handler.
\<close>

definition spawn :: "env \<Rightarrow> spawn_call \<Rightarrow> string promise" where
  "spawn env call s = (env call, s\<lparr>spawned := spawned s @ [call]\<rparr>)"

definition spawn_dropped :: "spawn_call \<Rightarrow> state \<Rightarrow> state" where
  "spawn_dropped call s = s\<lparr>spawned := spawned s @ [call]\<rparr>"

subsection \<open>The filesystem probe (the effect of the component)\<close>

text \<open>
  The chain is written from the inside out. Innermost, for a type \<open>ty\<close> that is
  \<^verbatim>\<open>xfs\<close> or \<^verbatim>\<open>btrfs\<close>: the trial copy, then the removal of the copy and the two
  setters, with a \<^verbatim>\<open>catch\<close> that records the type without reflink.
\<close>

definition trial_copy :: "env \<Rightarrow> string \<Rightarrow> string \<Rightarrow> string \<Rightarrow> unit promise" where
  "trial_copy env connectionName diskPath ty =
     catch_p
       (then_p (spawn env (cp_call connectionName diskPath))
          (\<lambda>_. effect (\<lambda>s.
             setUseReflink True
               (setFsInfo \<lparr>hasReflink = True, fsType = ty\<rparr>
                  (spawn_dropped (rm_call connectionName diskPath) s)))))
       (\<lambda>_. effect (setFsInfo \<lparr>hasReflink = False, fsType = ty\<rparr>))"

text \<open>The handler of the output of \<^verbatim>\<open>df --output=fstype\<close>.\<close>

definition on_fsOutput :: "env \<Rightarrow> string \<Rightarrow> string \<Rightarrow> string \<Rightarrow> unit promise" where
  "on_fsOutput env connectionName diskPath fsOutput =
     (let fsLines = split_char LF fsOutput in
      if 2 \<le> length fsLines then
        (let ty = trim (fsLines ! 1) in
         if ty = ''xfs'' \<or> ty = ''btrfs'' then trial_copy env connectionName diskPath ty
         else effect (setFsInfo \<lparr>hasReflink = False, fsType = ty\<rparr>))
      else resolve ())"

definition probe_fs :: "env \<Rightarrow> string \<Rightarrow> string \<Rightarrow> unit promise" where
  "probe_fs env connectionName diskPath =
     catch_p
       (then_p (spawn env (df_call connectionName diskPath))
          (on_fsOutput env connectionName diskPath))
       (\<lambda>_. effect (console_log [''Failed to get filesystem type'']))"

text \<open>The handler of the output of \<^verbatim>\<open>virsh domblklist\<close>.\<close>

definition on_output :: "env \<Rightarrow> string \<Rightarrow> string \<Rightarrow> unit promise" where
  "on_output env connectionName output =
     (let diskPath = locate_disk output in
      if diskPath \<noteq> [] then probe_fs env connectionName diskPath else resolve ())"

text \<open>
  The whole effect. The handlers of a chain run one after the other and nothing else
  writes the three hooks they set while the chain runs, so the chain is one function
  of the state.
\<close>

definition checkFs :: "env \<Rightarrow> string \<Rightarrow> string \<Rightarrow> unit promise" where
  "checkFs env name connectionName s =
     finally_p
       (catch_p
          (then_p (spawn env (virsh_call name connectionName)) (on_output env connectionName))
          (\<lambda>e. effect (console_log [''Failed to get VM disk path:'', e])))
       (setIsCheckingFs False)
       (setIsCheckingFs True s)"

text \<open>The calls made between two states.\<close>

definition new_spawns :: "state \<Rightarrow> state \<Rightarrow> spawn_call list" where
  "new_spawns s s' = drop (length (spawned s)) (spawned s')"

subsection \<open>Validation and the clone invoker\<close>

text \<open>
  Modelled from the spec: the helpers \<^verbatim>\<open>isEmpty\<close> and \<^verbatim>\<open>isObjectEmpty\<close> of
  \<^verbatim>\<open>helpers.js\<close>, which the dialog imports. The name "must be non-empty after
  trimming" and the dialog trims before it asks, so \<^verbatim>\<open>isEmpty\<close> holds of the empty
  string; \<^verbatim>\<open>isObjectEmpty\<close> holds of the object without properties.
\<close>

definition isEmpty :: "string \<Rightarrow> bool" where
  "isEmpty str \<longleftrightarrow> str = []"

definition isObjectEmpty :: "obj \<Rightarrow> bool" where
  "isObjectEmpty ob \<longleftrightarrow> ob = []"

text \<open>
  \<^verbatim>\<open>cockpit.gettext\<close> in the untranslated locale, and \<^verbatim>\<open>cockpit.format\<close> with one
  argument, for a format whose placeholders are \<^verbatim>\<open>$0\<close> with no letter, digit or
  underscore after it.
\<close>

definition gettext :: "string \<Rightarrow> string" where
  "gettext msg = msg"

fun format :: "string \<Rightarrow> string \<Rightarrow> string" where
  "format [] a = []"
| "format [c] a = [c]"
| "format (c # d # cs) a =
     (if c = CHR ''$'' \<and> d = CHR ''0'' then a @ format cs a else c # format (d # cs) a)"

definition validateParams :: "state \<Rightarrow> obj" where
  "validateParams s =
     (let validation = [] in
      if isEmpty (trim (newVmName s))
      then validation @ [(''name'', gettext ''Name must not be empty'')]
      else validation)"

text \<open>
  \<^verbatim>\<open>cloneArgs\<close> and the call of \<^verbatim>\<open>virt-clone\<close>:
  \<^verbatim>\<open>{ pty: true, ...(connectionName === "system" ? { superuser: "try" } : { }) }\<close>.
\<close>

definition cloneArgs :: "string \<Rightarrow> string \<Rightarrow> state \<Rightarrow> string list" where
  "cloneArgs name connectionName s =
     [''virt-clone'', ''--connect'', ''qemu:///'' @ connectionName,
      ''--original'', name, ''--name'', newVmName s]
     @ (if useReflink s \<and> hasReflink (fsInfo s) then [''--reflink''] else [''--auto-clone''])"

definition clone_call :: "string \<Rightarrow> string \<Rightarrow> state \<Rightarrow> spawn_call" where
  "clone_call name connectionName s =
     \<lparr>argv = cloneArgs name connectionName s,
      superuser = (if connectionName = ''system'' then Try else Unset),
      err = None, pty = True\<rparr>"

text \<open>
  \<^verbatim>\<open>onClone\<close> up to the point where it returns: the process is spawned, and what
  it streams and how it ends come later, as events.
\<close>

definition onClone :: "string \<Rightarrow> string \<Rightarrow> state \<Rightarrow> state" where
  "onClone name connectionName s =
     (let validation = validateParams s in
      if \<not> isObjectEmpty validation then setInProgress False s
      else spawn_dropped (clone_call name connectionName s) (setInProgress True s))"

text \<open>
  The two handlers of \<^verbatim>\<open>.then(Dialogs.close, () => { ... })\<close> and the callback of
  \<^verbatim>\<open>.stream\<close>, which is the setter of \<^verbatim>\<open>virtCloneOutput\<close> itself.
\<close>

definition clone_resolved :: "state \<Rightarrow> state" where
  "clone_resolved s = Dialogs_close s"

definition clone_rejected :: "string \<Rightarrow> state \<Rightarrow> state" where
  "clone_rejected name s =
     dialogErrorSet [(''dialogError'', format (gettext ''Failed to clone VM $0'') name)]
       (setInProgress False s)"

definition clone_stream :: "string \<Rightarrow> state \<Rightarrow> state" where
  "clone_stream data s = setVirtCloneOutput data s"

subsection \<open>What is rendered\<close>

text \<open>
  The parts of the rendering that decide what the user can do and see: whether the
  Clone button is disabled, the \<^verbatim>\<open>ModalError\<close> (message and detail) when
  \<^verbatim>\<open>error.dialogError\<close> is a non-empty string, and the row about reflink.
\<close>

definition cloneDisabled :: "state \<Rightarrow> bool" where
  "cloneDisabled s \<longleftrightarrow> inProgress s \<or> \<not> isObjectEmpty (validateParams s)"

definition modalError :: "state \<Rightarrow> (string \<times> string) option" where
  "modalError s =
     (case map_of (error s) ''dialogError'' of
        None \<Rightarrow> None
      | Some m \<Rightarrow> if m \<noteq> [] then Some (m, virtCloneOutput s) else None)"

datatype reflink_row =
    Checking
  | ReflinkCheckbox bool string
  | ReflinkNotEnabled string
  | ReflinkUnsupported string
  | NoRow

definition reflinkRow :: "state \<Rightarrow> reflink_row" where
  "reflinkRow s =
     (if isCheckingFs s then Checking
      else if hasReflink (fsInfo s) then ReflinkCheckbox (useReflink s) (fsType (fsInfo s))
      else if fsType (fsInfo s) = ''xfs'' \<or> fsType (fsInfo s) = ''btrfs''
        then ReflinkNotEnabled (fsType (fsInfo s))
      else if fsType (fsInfo s) \<noteq> [] then ReflinkUnsupported (fsType (fsInfo s))
      else NoRow)"

subsection \<open>The dialog as a machine\<close>

text \<open>
  The events the mounted dialog receives: a click on the Clone button (a disabled
  button gives no click), a submission of the form (the Enter key in the name field;
  the handler calls \<^verbatim>\<open>onClone\<close> with no condition), a change of the name, a
  change of the checkbox (rendered only once the probe has found reflink) to a new
  checked value, a piece of output streamed by a running clone, and the end of a
  running clone.

  The text input's handler is \<^verbatim>\<open>(_, value) => setNewVmName(value)\<close>: the library
  calls \<^verbatim>\<open>onChange(event, value)\<close>. The checkbox's handler is
  \<^verbatim>\<open>checked => setUseReflink(checked)\<close>, so what it stores is its first argument,
  the event object, and not the new checked value. The code reads the hook only for
  its truthiness (\<^verbatim>\<open>useReflink && fsInfo.hasReflink\<close>, \<^verbatim>\<open>isChecked\<close>), the field
  \<open>useReflink\<close> of the state is that truthiness, and an object is truthy: after a
  change of the checkbox, to checked or to unchecked, the field is \<open>True\<close>.
\<close>

datatype event =
    ClickClone
  | SubmitForm
  | ChangeName string
  | ChangeReflink bool
  | CloneData string
  | CloneExit bool
  | Cancel

fun step :: "string \<Rightarrow> string \<Rightarrow> event \<Rightarrow> state \<Rightarrow> state" where
  "step name connectionName ClickClone s =
     (if cloneDisabled s then s else onClone name connectionName s)"
| "step name connectionName SubmitForm s = onClone name connectionName s"
| "step name connectionName (ChangeName v) s = setNewVmName v s"
| "step name connectionName (ChangeReflink v) s =
     (case reflinkRow s of ReflinkCheckbox _ _ \<Rightarrow> setUseReflink True s | _ \<Rightarrow> s)"
| "step name connectionName (CloneData d) s = clone_stream d s"
| "step name connectionName (CloneExit ok) s =
     (if ok then clone_resolved s else clone_rejected name s)"
| "step name connectionName Cancel s = Dialogs_close s"

fun run :: "string \<Rightarrow> string \<Rightarrow> event list \<Rightarrow> state \<Rightarrow> state" where
  "run name connectionName [] s = s"
| "run name connectionName (e # es) s = run name connectionName es (step name connectionName e s)"

text \<open>
  Two readings of "the streamed output" along a trace of events. The code keeps what
  the callback of \<^verbatim>\<open>.stream\<close> was given last: each call of the setter replaces
  the value of the hook. The specification speaks of the output of the command, all
  the pieces it has streamed, one after the other.
\<close>

fun last_streamed :: "string \<Rightarrow> event list \<Rightarrow> string" where
  "last_streamed cur [] = cur"
| "last_streamed cur (CloneData d # es) = last_streamed d es"
| "last_streamed cur (e # es) = last_streamed cur es"

definition spec_streamed_output :: "event list \<Rightarrow> string" where
  "spec_streamed_output es = concat (map (\<lambda>e. case e of CloneData d \<Rightarrow> d | _ \<Rightarrow> []) es)"

subsection \<open>An example environment\<close>

text \<open>
  The example of the specification: a disk list with one header line and one disk, a
  \<^verbatim>\<open>df\<close> and a \<^verbatim>\<open>cp\<close> that answer as given, and every other command failing.
\<close>

definition example_output :: string where
  "example_output = ''Target  Source'' @ [LF] @ ''vda  /var/lib/libvirt/images/foo.qcow2''"

definition example_env :: "string + string \<Rightarrow> string + string \<Rightarrow> env" where
  "example_env df_result cp_result call =
     (if take 1 (argv call) = [''virsh''] then Inr example_output
      else if take 1 (argv call) = [''df''] then df_result
      else if take 1 (argv call) = [''cp''] then cp_result
      else Inl ''exit 1'')"

section \<open>Properties\<close>

subsection \<open>White space and tokens\<close>

text \<open>
  What \<^verbatim>\<open>trim\<close> followed by \<^verbatim>\<open>split(/\s+/)\<close> computes: the tokens of the row, or one
  empty piece when the row has none.
\<close>

lemma spec_tokens_Nil [simp]: "spec_tokens [] = []"
  by (simp add: spec_tokens.simps)

lemma spec_tokens_space: "is_space c \<Longrightarrow> spec_tokens (c # cs) = spec_tokens cs"
  by (subst spec_tokens.simps, subst (2) spec_tokens.simps) simp

lemma spec_tokens_dropWhile: "spec_tokens (dropWhile is_space s) = spec_tokens s"
  by (induction s) (simp_all add: spec_tokens_space)

lemma spec_tokens_nonspace:
  "\<not> is_space c \<Longrightarrow>
   spec_tokens (c # cs) =
     (c # takeWhile (\<lambda>c. \<not> is_space c) cs) # spec_tokens (dropWhile (\<lambda>c. \<not> is_space c) cs)"
  by (subst spec_tokens.simps) simp

lemma spec_tokens_nonspace_space:
  "\<not> is_space c \<Longrightarrow> cs \<noteq> [] \<Longrightarrow> is_space (hd cs) \<Longrightarrow> spec_tokens (c # cs) = [c] # spec_tokens cs"
  by (cases cs) (simp_all add: spec_tokens_nonspace)

lemma split_ws_tokens:
  "s \<noteq> [] \<Longrightarrow> \<not> is_space (last s) \<Longrightarrow>
   split_ws s = (if is_space (hd s) then [] # spec_tokens s else spec_tokens s)"
proof (induction s rule: split_ws.induct)
  case 1
  then show ?case by simp
next
  case (2 c cs)
  show ?case
  proof (cases "is_space c")
    case True
    let ?r = "dropWhile is_space cs"
    from True 2(3,4) have ne: "?r \<noteq> []"
      by (metis dropWhile_eq_Nil_conv last_ConsR last_in_set list.discI last.simps)
    then have hd: "\<not> is_space (hd ?r)" by (simp add: hd_dropWhile)
    have "last ?r = last cs" using ne
      by (metis append_Nil2 last_appendR takeWhile_dropWhile_id)
    moreover have "cs \<noteq> []" using ne by auto
    ultimately have "\<not> is_space (last ?r)" using 2(4) by simp
    with 2(1)[OF True ne] hd have "split_ws ?r = spec_tokens ?r" by simp
    then show ?thesis using True by (simp add: spec_tokens_space spec_tokens_dropWhile)
  next
    case False
    show ?thesis
    proof (cases cs)
      case Nil
      then show ?thesis using False by (simp add: spec_tokens_nonspace)
    next
      case (Cons d ds)
      then have "split_ws cs = (if is_space (hd cs) then [] # spec_tokens cs else spec_tokens cs)"
        using 2(2)[OF False] 2(4) by simp
      then show ?thesis using False Cons
        by (simp add: spec_tokens_nonspace)
    qed
  qed
qed


lemma spec_tokens_all_space: "\<forall>c\<in>set ws. is_space c \<Longrightarrow> spec_tokens ws = []"
  by (induction ws) (simp_all add: spec_tokens_space)

lemma spec_tokens_Cons:
  "\<not> is_space c \<Longrightarrow>
   spec_tokens (c # cs) =
     (case cs of [] \<Rightarrow> [[c]]
      | d # ds \<Rightarrow> if is_space d then [c] # spec_tokens cs
                 else (case spec_tokens cs of [] \<Rightarrow> [[c]] | w # ws \<Rightarrow> (c # w) # ws))"
  by (cases cs) (simp_all add: spec_tokens_nonspace)

lemma spec_tokens_trailing:
  "\<forall>c\<in>set ws. is_space c \<Longrightarrow> spec_tokens (s @ ws) = spec_tokens s"
proof (induction s)
  case Nil
  then show ?case by (simp add: spec_tokens_all_space)
next
  case (Cons c cs)
  show ?case
  proof (cases "is_space c")
    case True
    then show ?thesis using Cons by (simp add: spec_tokens_space)
  next
    case False
    show ?thesis
    proof (cases cs)
      case Nil
      then show ?thesis using False Cons.prems
        by (cases ws) (simp_all add: spec_tokens_Cons spec_tokens_all_space)
    next
      case (Cons d ds)
      then show ?thesis using False Cons.IH[OF Cons.prems]
        by (simp add: spec_tokens_Cons)
    qed
  qed
qed

lemma trim_decomp:
  "dropWhile is_space s = trim s @ rev (takeWhile is_space (rev (dropWhile is_space s)))"
proof -
  let ?u = "dropWhile is_space s"
  have "trim s @ rev (takeWhile is_space (rev ?u))
      = rev (takeWhile is_space (rev ?u) @ dropWhile is_space (rev ?u))"
    by (simp only: trim_def rev_append)
  also have "\<dots> = rev (rev ?u)" by (simp only: takeWhile_dropWhile_id)
  also have "\<dots> = ?u" by simp
  finally show ?thesis by simp
qed

lemma spec_tokens_trim: "spec_tokens (trim s) = spec_tokens s"
proof -
  let ?ws = "rev (takeWhile is_space (rev (dropWhile is_space s)))"
  have "\<forall>c\<in>set ?ws. is_space c" by (auto dest: set_takeWhileD)
  then have "spec_tokens (trim s @ ?ws) = spec_tokens (trim s)" by (rule spec_tokens_trailing)
  then show ?thesis using trim_decomp[of s] by (simp add: spec_tokens_dropWhile)
qed

lemma trim_last: "trim s \<noteq> [] \<Longrightarrow> \<not> is_space (last (trim s))"
  unfolding trim_def by (simp add: last_rev hd_dropWhile)

lemma trim_hd: "trim s \<noteq> [] \<Longrightarrow> \<not> is_space (hd (trim s))"
proof -
  assume ne: "trim s \<noteq> []"
  let ?u = "dropWhile is_space s"
  from ne trim_decomp[of s] have u: "?u \<noteq> []" by (metis append_is_Nil_conv)
  then have "\<not> is_space (hd ?u)" by (simp add: hd_dropWhile)
  moreover have "hd ?u = hd (trim s)" using ne trim_decomp[of s] by (metis hd_append2)
  ultimately show ?thesis by simp
qed

lemma spec_tokens_empty_iff: "spec_tokens s = [] \<longleftrightarrow> (\<forall>c\<in>set s. is_space c)"
proof
  assume "spec_tokens s = []"
  then have "dropWhile is_space s = []"
    by (subst (asm) spec_tokens.simps) (simp add: Let_def split: if_splits)
  then show "\<forall>c\<in>set s. is_space c" by (simp add: dropWhile_eq_Nil_conv)
qed (simp add: spec_tokens_all_space)

lemma split_ws_trim:
  "split_ws (trim s) = (if spec_tokens s = [] then [[]] else spec_tokens s)"
proof (cases "trim s = []")
  case True
  then have "spec_tokens (trim s) = []" by simp
  then have "spec_tokens s = []" by (simp only: spec_tokens_trim)
  then show ?thesis using True by simp
next
  case False
  then have "split_ws (trim s) = spec_tokens (trim s)"
    using split_ws_tokens[OF False trim_last[OF False]] trim_hd[OF False] by simp
  moreover have "spec_tokens (trim s) \<noteq> []"
    using False trim_hd[OF False] by (cases "trim s") (simp_all add: spec_tokens_nonspace)
  ultimately show ?thesis by (simp add: spec_tokens_trim)
qed

lemma spec_tokens_unfold:
  "dropWhile is_space s \<noteq> [] \<Longrightarrow>
   spec_tokens s = takeWhile (\<lambda>c. \<not> is_space c) (dropWhile is_space s)
     # spec_tokens (dropWhile (\<lambda>c. \<not> is_space c) (dropWhile is_space s))"
  by (subst spec_tokens.simps) (simp only: Let_def if_False)

lemma spec_tokens_nonempty:
  "w \<in> set (spec_tokens s) \<Longrightarrow> w \<noteq> [] \<and> (\<forall>c\<in>set w. \<not> is_space c)"
proof (induction s arbitrary: w rule: spec_tokens.induct)
  case (1 s)
  let ?r = "dropWhile is_space s"
  let ?t = "takeWhile (\<lambda>c. \<not> is_space c) ?r"
  show ?case
  proof (cases "?r = []")
    case True
    then have "\<forall>c\<in>set s. is_space c" by (simp only: dropWhile_eq_Nil_conv)
    then have "spec_tokens s = []" by (rule spec_tokens_all_space)
    with 1(2) show ?thesis by simp
  next
    case False
    from False have "\<not> is_space (hd ?r)" by (rule hd_dropWhile)
    with False have ne: "?t \<noteq> []" by (simp only: takeWhile_eq_Nil_iff not_not simp_thms)
    have sp: "\<forall>c\<in>set ?t. \<not> is_space c"
    proof
      fix c assume "c \<in> set ?t"
      then show "\<not> is_space c" by (rule set_takeWhileD[THEN conjunct2])
    qed
    from 1(2) have "w \<in> set (?t # spec_tokens (dropWhile (\<lambda>c. \<not> is_space c) ?r))"
      by (simp only: spec_tokens_unfold[OF False])
    then have "w = ?t \<or> w \<in> set (spec_tokens (dropWhile (\<lambda>c. \<not> is_space c) ?r))"
      by (simp only: set_ConsD list.set insert_iff)
    then show ?thesis
    proof
      assume w: "w = ?t"
      show ?thesis unfolding w using ne sp by (rule conjI)
    next
      assume "w \<in> set (spec_tokens (dropWhile (\<lambda>c. \<not> is_space c) ?r))"
      then show ?thesis by (rule 1(1)[OF refl False])
    qed
  qed
qed

lemma scan_rows_Cons:
  "scan_rows (l # ls) = (if spec_row_ok l then spec_tokens l ! 1 else scan_rows ls)"
proof (cases "spec_tokens l")
  case Nil
  then show ?thesis by (simp add: split_ws_trim spec_row_ok_def)
next
  case (Cons w ws)
  then show ?thesis by (simp add: split_ws_trim spec_row_ok_def)
qed

lemma scan_rows_find:
  "scan_rows rows = (case find spec_row_ok rows of None \<Rightarrow> [] | Some row \<Rightarrow> spec_tokens row ! 1)"
  by (induction rows) (simp_all add: scan_rows_Cons del: scan_rows.simps(2))

lemma locate_disk_spec:
  "locate_disk output = (case spec_locate output of None \<Rightarrow> [] | Some path \<Rightarrow> path)"
  by (simp add: locate_disk_def spec_locate_def scan_rows_find split: option.splits)

lemma trim_eq_Nil_iff: "trim s = [] \<longleftrightarrow> (\<forall>c\<in>set s. is_space c)"
proof
  assume t: "trim s = []"
  show "\<forall>c\<in>set s. is_space c"
  proof (rule ccontr)
    assume "\<not> (\<forall>c\<in>set s. is_space c)"
    then have ne: "dropWhile is_space s \<noteq> []" by simp
    then have "\<not> is_space (hd (dropWhile is_space s))" by (rule hd_dropWhile)
    moreover from t have "\<forall>c\<in>set (dropWhile is_space s). is_space c"
      by (simp add: trim_def)
    ultimately show False using ne hd_in_set by blast
  qed
next
  assume "\<forall>c\<in>set s. is_space c"
  then show "trim s = []" by (auto simp: trim_def dest: set_dropWhileD)
qed

lemma spec_locate_nonempty: "spec_locate output = Some path \<Longrightarrow> path \<noteq> [] \<and> path \<noteq> ''-''"
  by (auto simp: spec_locate_def spec_row_ok_def find_Some_iff split: option.splits)

subsection \<open>The paths of the probe\<close>

text \<open>
  The chain has seven ways through it; each lemma gives the settled promise and the
  state at the end of one of them.
\<close>

lemmas probe_defs =
  checkFs_def finally_p_def catch_p_def then_p_def spawn_def effect_def resolve_def
  on_output_def probe_fs_def on_fsOutput_def trial_copy_def setFsInfo_def
  setUseReflink_def setIsCheckingFs_def console_log_def spawn_dropped_def

lemma checkFs_virsh_rejected:
  "env (virsh_call name connectionName) = Inl e \<Longrightarrow>
   checkFs env name connectionName s =
     (Inr (), s\<lparr>isCheckingFs := False,
                spawned := spawned s @ [virsh_call name connectionName],
                console := console s @ [[''Failed to get VM disk path:'', e]]\<rparr>)"
  by (simp add: probe_defs Let_def)

lemma checkFs_no_disk:
  "env (virsh_call name connectionName) = Inr output \<Longrightarrow> locate_disk output = [] \<Longrightarrow>
   checkFs env name connectionName s =
     (Inr (), s\<lparr>isCheckingFs := False,
                spawned := spawned s @ [virsh_call name connectionName]\<rparr>)"
  by (simp add: probe_defs Let_def)

lemma checkFs_df_rejected:
  "env (virsh_call name connectionName) = Inr output \<Longrightarrow> locate_disk output \<noteq> [] \<Longrightarrow>
   env (df_call connectionName (locate_disk output)) = Inl e \<Longrightarrow>
   checkFs env name connectionName s =
     (Inr (), s\<lparr>isCheckingFs := False,
                spawned := spawned s @ [virsh_call name connectionName,
                                        df_call connectionName (locate_disk output)],
                console := console s @ [[''Failed to get filesystem type'']]\<rparr>)"
  by (simp add: probe_defs Let_def)

lemma checkFs_short_output:
  "env (virsh_call name connectionName) = Inr output \<Longrightarrow> locate_disk output \<noteq> [] \<Longrightarrow>
   env (df_call connectionName (locate_disk output)) = Inr fsOutput \<Longrightarrow>
   length (split_char LF fsOutput) < 2 \<Longrightarrow>
   checkFs env name connectionName s =
     (Inr (), s\<lparr>isCheckingFs := False,
                spawned := spawned s @ [virsh_call name connectionName,
                                        df_call connectionName (locate_disk output)]\<rparr>)"
  by (simp add: probe_defs Let_def)


lemma checkFs_copy_resolved:
  "env (virsh_call name connectionName) = Inr output \<Longrightarrow> locate_disk output \<noteq> [] \<Longrightarrow>
   env (df_call connectionName (locate_disk output)) = Inr fsOutput \<Longrightarrow>
   2 \<le> length (split_char LF fsOutput) \<Longrightarrow>
   trim (split_char LF fsOutput ! 1) = ''xfs'' \<or> trim (split_char LF fsOutput ! 1) = ''btrfs'' \<Longrightarrow>
   env (cp_call connectionName (locate_disk output)) = Inr cpOutput \<Longrightarrow>
   checkFs env name connectionName s =
     (Inr (), s\<lparr>isCheckingFs := False,
                spawned := spawned s @ [virsh_call name connectionName,
                                        df_call connectionName (locate_disk output),
                                        cp_call connectionName (locate_disk output),
                                        rm_call connectionName (locate_disk output)],
                fsInfo := \<lparr>hasReflink = True, fsType = trim (split_char LF fsOutput ! 1)\<rparr>,
                useReflink := True\<rparr>)"
  by (auto simp add: probe_defs Let_def)

lemma checkFs_copy_rejected:
  "env (virsh_call name connectionName) = Inr output \<Longrightarrow> locate_disk output \<noteq> [] \<Longrightarrow>
   env (df_call connectionName (locate_disk output)) = Inr fsOutput \<Longrightarrow>
   2 \<le> length (split_char LF fsOutput) \<Longrightarrow>
   trim (split_char LF fsOutput ! 1) = ''xfs'' \<or> trim (split_char LF fsOutput ! 1) = ''btrfs'' \<Longrightarrow>
   env (cp_call connectionName (locate_disk output)) = Inl e \<Longrightarrow>
   checkFs env name connectionName s =
     (Inr (), s\<lparr>isCheckingFs := False,
                spawned := spawned s @ [virsh_call name connectionName,
                                        df_call connectionName (locate_disk output),
                                        cp_call connectionName (locate_disk output)],
                fsInfo := \<lparr>hasReflink = False, fsType = trim (split_char LF fsOutput ! 1)\<rparr>\<rparr>)"
  by (auto simp add: probe_defs Let_def)

lemma new_spawns_append [simp]:
  "spawned s' = spawned s @ cs \<Longrightarrow> new_spawns s s' = cs"
  by (simp add: new_spawns_def)

lemma checkFs_never_rejects: "fst (checkFs env name connectionName s) = Inr ()"
  by (simp add: probe_defs Let_def split: sum.splits prod.splits)

lemma checkFs_clears_flag: "isCheckingFs (snd (checkFs env name connectionName s)) = False"
  by (simp add: probe_defs Let_def split: sum.splits prod.splits)

lemma checkFs_probes_disk:
  "env (virsh_call name connectionName) = Inr output \<Longrightarrow> locate_disk output \<noteq> [] \<Longrightarrow>
   take 2 (new_spawns s (snd (checkFs env name connectionName s)))
     = [virsh_call name connectionName, df_call connectionName (locate_disk output)]"
  by (simp add: probe_defs new_spawns_def Let_def split: sum.splits)

lemma not_cp_calls [simp]:
  "take (Suc 0) (argv (virsh_call name connectionName)) \<noteq> [''cp'']"
  "take (Suc 0) (argv (df_call connectionName diskPath)) \<noteq> [''cp'']"
  "take (Suc 0) (argv (rm_call connectionName diskPath)) \<noteq> [''cp'']"
  "take (Suc 0) (argv (cp_call connectionName diskPath)) = [''cp'']"
  by (simp_all add: virsh_call_def df_call_def rm_call_def cp_call_def)

subsection \<open>The example, evaluated\<close>

lemma example_locate: "locate_disk example_output = ''/var/lib/libvirt/images/foo.qcow2''"
  by code_simp

lemma example_spec_locate: "spec_locate example_output = Some ''/var/lib/libvirt/images/foo.qcow2''"
  by code_simp

lemma example_env_simps [simp]:
  "example_env d c (virsh_call name connectionName) = Inr example_output"
  "example_env d c (df_call connectionName diskPath) = d"
  "example_env d c (cp_call connectionName diskPath) = c"
  by (simp_all add: example_env_def virsh_call_def df_call_def cp_call_def)

lemma example_xfs_lines:
  "split_char LF (''fstype'' @ [LF] @ ''xfs'' @ [LF]) = [''fstype'', ''xfs'', []]"
  "trim ''xfs'' = ''xfs''"
  by (simp_all add: trim_def is_space_def)

subsection \<open>Validation and the clone invoker\<close>

lemma format_failed: "format ''Failed to clone VM $0'' a = ''Failed to clone VM '' @ a"
  by simp

lemma validateParams_eq:
  "validateParams s = (if trim (newVmName s) = [] then [(''name'', ''Name must not be empty'')] else [])"
  by (simp add: validateParams_def isEmpty_def gettext_def)

lemma onClone_invalid:
  "trim (newVmName s) = [] \<Longrightarrow> onClone name connectionName s = s\<lparr>inProgress := False\<rparr>"
  by (simp add: onClone_def validateParams_eq isObjectEmpty_def setInProgress_def)

lemma onClone_valid:
  "trim (newVmName s) \<noteq> [] \<Longrightarrow>
   onClone name connectionName s =
     s\<lparr>inProgress := True, spawned := spawned s @ [clone_call name connectionName s]\<rparr>"
  by (simp add: onClone_def validateParams_eq isObjectEmpty_def setInProgress_def spawn_dropped_def)

subsection \<open>What the stream leaves in the hook\<close>

lemma run_snoc:
  "run name connectionName (es @ [e]) s = step name connectionName e (run name connectionName es s)"
  by (induction es arbitrary: s) simp_all

lemma virtCloneOutput_onClone: "virtCloneOutput (onClone name connectionName s) = virtCloneOutput s"
  by (simp add: onClone_def setInProgress_def spawn_dropped_def Let_def)

lemma virtCloneOutput_step:
  "virtCloneOutput (step name connectionName e s) = last_streamed (virtCloneOutput s) [e]"
proof (cases e)
  case (ChangeReflink v)
  then show ?thesis by (simp add: setUseReflink_def split: reflink_row.splits)
next
  case (CloneExit ok)
  then show ?thesis
    by (simp add: clone_resolved_def clone_rejected_def Dialogs_close_def dialogErrorSet_def
        setInProgress_def)
qed (simp_all add: virtCloneOutput_onClone setNewVmName_def clone_stream_def
      setVirtCloneOutput_def Dialogs_close_def)

lemma last_streamed_Cons:
  "last_streamed cur (e # es) = last_streamed (last_streamed cur [e]) es"
  by (cases e) simp_all

lemma virtCloneOutput_run:
  "virtCloneOutput (run name connectionName es s) = last_streamed (virtCloneOutput s) es"
proof (induction es arbitrary: s)
  case Nil
  show ?case by simp
next
  case (Cons e es)
  have "virtCloneOutput (run name connectionName (e # es) s)
          = last_streamed (virtCloneOutput (step name connectionName e s)) es"
    by (simp add: Cons.IH)
  also have "\<dots> = last_streamed (last_streamed (virtCloneOutput s) [e]) es"
    by (simp only: virtCloneOutput_step)
  also have "\<dots> = last_streamed (virtCloneOutput s) (e # es)"
    by (rule last_streamed_Cons[symmetric])
  finally show ?case .
qed

section \<open>The claims\<close>

text \<open>
  Claim C1. Whatever \<^verbatim>\<open>virsh domblklist\<close> prints, the locator skips the first
  line and takes the second token of the first later row that has at least two
  tokens and whose second token is neither empty nor the dash; the path it takes is
  what \<^verbatim>\<open>df\<close> is then asked about. When there is no such row the path is empty
  and the list query is the only process of the probe.
\<close>

theorem locator_first_matching_row:
  assumes "env (virsh_call name connectionName) = Inr output"
  shows "case spec_locate output of
           None \<Rightarrow>
             locate_disk output = [] \<and>
             new_spawns s (snd (checkFs env name connectionName s))
               = [virsh_call name connectionName]
         | Some path \<Rightarrow>
             locate_disk output = path \<and> path \<noteq> [] \<and>
             take 2 (new_spawns s (snd (checkFs env name connectionName s)))
               = [virsh_call name connectionName, df_call connectionName path]"
proof (cases "spec_locate output")
  case None
  then have "locate_disk output = []" by (simp add: locate_disk_spec)
  with None assms show ?thesis by (simp add: checkFs_no_disk)
next
  case (Some path)
  then have p: "locate_disk output = path" by (simp add: locate_disk_spec)
  moreover from Some have ne: "path \<noteq> []" by (simp add: spec_locate_nonempty)
  ultimately show ?thesis
    using Some assms checkFs_probes_disk[of env name connectionName "output" s] by simp
qed

theorem locator_first_matching_row_witness:
  "spec_locate example_output = Some ''/var/lib/libvirt/images/foo.qcow2'' \<and>
   locate_disk example_output = ''/var/lib/libvirt/images/foo.qcow2'' \<and>
   take 2 (new_spawns (init ''foo'')
             (snd (checkFs (example_env (Inl ''exit 1'') (Inl ''exit 1'')) ''foo'' ''system'' (init ''foo''))))
     = [virsh_call ''foo'' ''system'', df_call ''system'' ''/var/lib/libvirt/images/foo.qcow2'']"
  using locator_first_matching_row
    [of "example_env (Inl ''exit 1'') (Inl ''exit 1'')" "''foo''" "''system''" example_output "init ''foo''"]
  by (simp add: example_spec_locate)



text \<open>
  Claim C3. For a type \<^verbatim>\<open>xfs\<close> or \<^verbatim>\<open>btrfs\<close>: when the trial copy succeeds the
  probe result is reflink with the type, \<^verbatim>\<open>useReflink\<close> is set and the checkbox
  is rendered checked; when it fails the result is no reflink with the type, and
  \<^verbatim>\<open>useReflink\<close> is what it was (unchecked, from the initial state).
\<close>

theorem trial_copy_outcome:
  assumes "env (virsh_call name connectionName) = Inr output"
    and "locate_disk output \<noteq> []"
    and "env (df_call connectionName (locate_disk output)) = Inr fsOutput"
    and "2 \<le> length (split_char LF fsOutput)"
    and "trim (split_char LF fsOutput ! 1) = ''xfs'' \<or> trim (split_char LF fsOutput ! 1) = ''btrfs''"
  shows "let s' = snd (checkFs env name connectionName s); ty = trim (split_char LF fsOutput ! 1) in
         case env (cp_call connectionName (locate_disk output)) of
           Inr _ \<Rightarrow>
             fsInfo s' = \<lparr>hasReflink = True, fsType = ty\<rparr> \<and> useReflink s' = True \<and>
             reflinkRow s' = ReflinkCheckbox True ty
         | Inl _ \<Rightarrow>
             fsInfo s' = \<lparr>hasReflink = False, fsType = ty\<rparr> \<and> useReflink s' = useReflink s"
proof (cases "env (cp_call connectionName (locate_disk output))")
  case (Inl e)
  show ?thesis using assms Inl
    by (simp add: checkFs_copy_rejected[of env name connectionName "output" fsOutput _ s])
next
  case (Inr v)
  show ?thesis using assms Inr
    by (simp add: checkFs_copy_resolved[of env name connectionName "output" fsOutput _ s] reflinkRow_def)
qed

theorem trial_copy_outcome_witness:
  "fsInfo (snd (checkFs (example_env (Inr (''fstype'' @ [LF] @ ''xfs'' @ [LF])) (Inr []))
                  ''foo'' ''system'' (init ''foo'')))
     = \<lparr>hasReflink = True, fsType = ''xfs''\<rparr> \<and>
   useReflink (snd (checkFs (example_env (Inr (''fstype'' @ [LF] @ ''xfs'' @ [LF])) (Inr []))
                  ''foo'' ''system'' (init ''foo''))) = True \<and>
   fsInfo (snd (checkFs (example_env (Inr (''fstype'' @ [LF] @ ''xfs'' @ [LF])) (Inl ''cp: failed to clone''))
                  ''foo'' ''system'' (init ''foo'')))
     = \<lparr>hasReflink = False, fsType = ''xfs''\<rparr> \<and>
   useReflink (snd (checkFs (example_env (Inr (''fstype'' @ [LF] @ ''xfs'' @ [LF])) (Inl ''cp: failed to clone''))
                  ''foo'' ''system'' (init ''foo''))) = False"
  using trial_copy_outcome
          [of "example_env (Inr (''fstype'' @ [LF] @ ''xfs'' @ [LF])) (Inr [])" "''foo''" "''system''"
              example_output "''fstype'' @ [LF] @ ''xfs'' @ [LF]" "init ''foo''"]
        trial_copy_outcome
          [of "example_env (Inr (''fstype'' @ [LF] @ ''xfs'' @ [LF])) (Inl ''cp: failed to clone'')"
              "''foo''" "''system''"
              example_output "''fstype'' @ [LF] @ ''xfs'' @ [LF]" "init ''foo''"]
  by (simp add: example_locate example_xfs_lines init_def Let_def)




text \<open>
  Claim C5 does not hold of the code. The Clone button is disabled while a clone is
  in progress, so a click does nothing; the form's submit handler calls
  \<^verbatim>\<open>onClone\<close> with no look at the flag, and \<^verbatim>\<open>onClone\<close> has none of its own. Two
  submissions in a row, the first clone still running, spawn \<^verbatim>\<open>virt-clone\<close> twice.
\<close>

theorem form_submit_reenters_clone:
  "inProgress (run ''foo'' ''system'' [SubmitForm] (init ''foo'')) \<and>
   run ''foo'' ''system'' [SubmitForm, ClickClone] (init ''foo'')
     = run ''foo'' ''system'' [SubmitForm] (init ''foo'') \<and>
   spawned (run ''foo'' ''system'' [SubmitForm, SubmitForm] (init ''foo''))
     = [clone_call ''foo'' ''system'' (init ''foo''), clone_call ''foo'' ''system'' (init ''foo'')]"
  by code_simp

text \<open>
  Claim C6. With a name that is empty or all white space, validation reports the
  name, \<^verbatim>\<open>onClone\<close> only clears the in-progress flag and returns, and neither a
  form submission nor a click spawns anything.
\<close>

theorem blank_name_never_clones:
  assumes "\<forall>ch\<in>set (newVmName s). is_space ch"
  shows "validateParams s = [(''name'', ''Name must not be empty'')] \<and>
         onClone name connectionName s = setInProgress False s \<and>
         spawned (onClone name connectionName s) = spawned s \<and>
         inProgress (onClone name connectionName s) = False \<and>
         spawned (step name connectionName SubmitForm s) = spawned s \<and>
         spawned (step name connectionName ClickClone s) = spawned s"
proof -
  from assms have "trim (newVmName s) = []" by (simp only: trim_eq_Nil_iff)
  then show ?thesis
    by (simp add: onClone_invalid validateParams_eq setInProgress_def)
qed

theorem blank_name_never_clones_witness:
  "trim ''  '' = [] \<and>
   spawned (run ''foo'' ''system'' [ChangeName ''  '', SubmitForm] (init ''foo'')) = [] \<and>
   inProgress (run ''foo'' ''system'' [ChangeName ''  '', SubmitForm] (init ''foo'')) = False"
  using blank_name_never_clones[of "setNewVmName ''  '' (init ''foo'')" "''foo''" "''system''"]
  by (simp add: setNewVmName_def setInProgress_def init_def is_space_def trim_def)

text \<open>
  Claim C7, as amended. A clone that succeeds closes the dialog. A clone that fails
  leaves it as open as it was, clears the in-progress flag (the button is then
  disabled only by an invalid name), and renders an error whose message is
  \<^verbatim>\<open>Failed to clone VM\<close> followed by the name of the source machine and whose
  detail is the value of \<^verbatim>\<open>virtCloneOutput\<close>: along any trace of events, the piece
  the stream callback was given last, by this clone or by an earlier one of the
  dialog, and what the hook held before the trace when nothing was streamed.
\<close>

theorem clone_exit_outcome:
  "dialog_closed (step name connectionName (CloneExit True) s) \<and>
   dialog_closed (step name connectionName (CloneExit False) s) = dialog_closed s \<and>
   inProgress (step name connectionName (CloneExit False) s) = False \<and>
   cloneDisabled (step name connectionName (CloneExit False) s) = (trim (newVmName s) = []) \<and>
   modalError (step name connectionName (CloneExit False) s)
     = Some (''Failed to clone VM '' @ name, virtCloneOutput s) \<and>
   sublist name (fst (the (modalError (step name connectionName (CloneExit False) s)))) \<and>
   modalError (run name connectionName (es @ [CloneExit False]) s)
     = Some (''Failed to clone VM '' @ name, last_streamed (virtCloneOutput s) es)"
proof -
  note defs = clone_resolved_def clone_rejected_def clone_stream_def Dialogs_close_def
      dialogErrorSet_def setInProgress_def setVirtCloneOutput_def modalError_def
      cloneDisabled_def validateParams_eq isObjectEmpty_def gettext_def format_failed
  have m: "modalError (step name connectionName (CloneExit False) s')
             = Some (''Failed to clone VM '' @ name, virtCloneOutput s')" for s'
    by (simp add: defs)
  have "sublist name (fst (the (modalError (step name connectionName (CloneExit False) s))))"
    by (simp only: m option.sel fst_conv sublist_append_leftI)
  moreover have "dialog_closed (step name connectionName (CloneExit True) s)"
    by (simp add: defs)
  moreover have "dialog_closed (step name connectionName (CloneExit False) s) = dialog_closed s"
    by (simp add: defs)
  moreover have "inProgress (step name connectionName (CloneExit False) s) = False"
    by (simp add: defs)
  moreover have "cloneDisabled (step name connectionName (CloneExit False) s)
                   = (trim (newVmName s) = [])"
    by (simp add: defs)
  moreover have "modalError (run name connectionName (es @ [CloneExit False]) s)
                   = Some (''Failed to clone VM '' @ name, last_streamed (virtCloneOutput s) es)"
    by (simp only: run_snoc m virtCloneOutput_run)
  ultimately show ?thesis using m[of s] by blast
qed

theorem clone_exit_outcome_witness:
  "dialog_closed (run ''foo'' ''system'' [SubmitForm, CloneData ''Allocating'', CloneExit True] (init ''foo'')) \<and>
   \<not> dialog_closed (run ''foo'' ''system'' [SubmitForm, CloneData ''ERROR'', CloneExit False] (init ''foo'')) \<and>
   \<not> inProgress (run ''foo'' ''system'' [SubmitForm, CloneData ''ERROR'', CloneExit False] (init ''foo'')) \<and>
   modalError
     (run ''foo'' ''system''
        ([SubmitForm, CloneData ''Allocating '', CloneData ''ERROR''] @ [CloneExit False]) (init ''foo''))
     = Some (''Failed to clone VM foo'', ''ERROR'')"
  using clone_exit_outcome
          [of "''foo''" "''system''" "step ''foo'' ''system'' SubmitForm (init ''foo'')" "[]"]
        clone_exit_outcome
          [of "''foo''" "''system''"
              "run ''foo'' ''system'' [SubmitForm, CloneData ''Allocating''] (init ''foo'')" "[]"]
        clone_exit_outcome
          [of "''foo''" "''system''" "init ''foo''"
              "[SubmitForm, CloneData ''Allocating '', CloneData ''ERROR'']"]
  by (simp add: onClone_valid init_def trim_def is_space_def clone_stream_def setVirtCloneOutput_def
      clone_resolved_def clone_rejected_def Dialogs_close_def dialogErrorSet_def setInProgress_def
      modalError_def gettext_def)

text \<open>
  The claim as it was stated, the detail being the streamed output of the command,
  fails for a clone that streams two pieces and then fails: the detail is the
  second piece, not the two together.
\<close>

theorem detail_is_last_chunk_only:
  "modalError
     (run ''foo'' ''system''
        [SubmitForm, CloneData ''Allocating '', CloneData ''ERROR'', CloneExit False] (init ''foo''))
     = Some (''Failed to clone VM foo'', ''ERROR'') \<and>
   spec_streamed_output
     [SubmitForm, CloneData ''Allocating '', CloneData ''ERROR'', CloneExit False]
     = ''Allocating ERROR'' \<and>
   snd (the (modalError
     (run ''foo'' ''system''
        [SubmitForm, CloneData ''Allocating '', CloneData ''ERROR'', CloneExit False] (init ''foo''))))
     \<noteq> spec_streamed_output
         [SubmitForm, CloneData ''Allocating '', CloneData ''ERROR'', CloneExit False]"
  by code_simp

text \<open>
  Claim C8. When the disk list query is rejected, or the filesystem type query is,
  the chain still resolves, one line is written to the console, the probe result and
  \<^verbatim>\<open>useReflink\<close> are what they were (the default, from the initial state) and
  the checking flag is cleared.
\<close>

theorem probe_command_failure:
  assumes "env (virsh_call name connectionName) = Inl e \<or>
           (env (virsh_call name connectionName) = Inr output \<and> locate_disk output \<noteq> [] \<and>
            env (df_call connectionName (locate_disk output)) = Inl e)"
  shows "fst (checkFs env name connectionName s) = Inr () \<and>
         fsInfo (snd (checkFs env name connectionName s)) = fsInfo s \<and>
         useReflink (snd (checkFs env name connectionName s)) = useReflink s \<and>
         isCheckingFs (snd (checkFs env name connectionName s)) = False \<and>
         console (snd (checkFs env name connectionName s))
           = console s @ [case env (virsh_call name connectionName) of
                            Inl e' \<Rightarrow> [''Failed to get VM disk path:'', e']
                          | Inr _ \<Rightarrow> [''Failed to get filesystem type'']] \<and>
         fsInfo (snd (checkFs env name connectionName (init name)))
           = \<lparr>hasReflink = False, fsType = []\<rparr>"
  using assms
proof
  assume "env (virsh_call name connectionName) = Inl e"
  then show ?thesis by (simp add: checkFs_virsh_rejected init_def)
next
  assume "env (virsh_call name connectionName) = Inr output \<and> locate_disk output \<noteq> [] \<and>
          env (df_call connectionName (locate_disk output)) = Inl e"
  then show ?thesis
    by (simp add: checkFs_df_rejected[of env name connectionName "output" e] init_def)
qed

theorem probe_command_failure_witness:
  "console (snd (checkFs (\<lambda>call. Inl ''exit 1'') ''foo'' ''system'' (init ''foo'')))
     = [[''Failed to get VM disk path:'', ''exit 1'']] \<and>
   fsInfo (snd (checkFs (\<lambda>call. Inl ''exit 1'') ''foo'' ''system'' (init ''foo'')))
     = \<lparr>hasReflink = False, fsType = []\<rparr> \<and>
   isCheckingFs (snd (checkFs (\<lambda>call. Inl ''exit 1'') ''foo'' ''system'' (init ''foo''))) = False \<and>
   console (snd (checkFs (example_env (Inl ''df: no such file'') (Inr [])) ''foo'' ''system'' (init ''foo'')))
     = [[''Failed to get filesystem type'']] \<and>
   fsInfo (snd (checkFs (example_env (Inl ''df: no such file'') (Inr [])) ''foo'' ''system'' (init ''foo'')))
     = \<lparr>hasReflink = False, fsType = []\<rparr> \<and>
   isCheckingFs (snd (checkFs (example_env (Inl ''df: no such file'') (Inr [])) ''foo'' ''system'' (init ''foo''))) = False"
  using probe_command_failure
          [of "\<lambda>call. Inl ''exit 1''" "''foo''" "''system''" "''exit 1''" _ "init ''foo''"]
        probe_command_failure
          [of "example_env (Inl ''df: no such file'') (Inr [])" "''foo''" "''system''"
              "''df: no such file''" example_output "init ''foo''"]
  by (simp add: example_locate init_def)

text \<open>
  Claim C9. When \<^verbatim>\<open>df\<close> succeeds with fewer than two lines of output, the probe
  stops after it: no trial copy, nothing on the console, and the probe result is
  what it was, as after a rejected query.
\<close>

theorem short_type_output_is_silent:
  assumes "env (virsh_call name connectionName) = Inr output"
    and "locate_disk output \<noteq> []"
    and "env (df_call connectionName (locate_disk output)) = Inr fsOutput"
    and "length (split_char LF fsOutput) < 2"
  shows "new_spawns s (snd (checkFs env name connectionName s))
           = [virsh_call name connectionName, df_call connectionName (locate_disk output)] \<and>
         fsInfo (snd (checkFs env name connectionName s)) = fsInfo s \<and>
         useReflink (snd (checkFs env name connectionName s)) = useReflink s \<and>
         console (snd (checkFs env name connectionName s)) = console s \<and>
         isCheckingFs (snd (checkFs env name connectionName s)) = False \<and>
         fsInfo (snd (checkFs env name connectionName (init name)))
           = \<lparr>hasReflink = False, fsType = []\<rparr>"
  using assms
  by (simp add: checkFs_short_output[of env name connectionName "output" fsOutput] init_def)

theorem short_type_output_is_silent_witness:
  "length (split_char LF ''fstype'') < 2 \<and>
   new_spawns (init ''foo'')
     (snd (checkFs (example_env (Inr ''fstype'') (Inr [])) ''foo'' ''system'' (init ''foo'')))
     = [virsh_call ''foo'' ''system'', df_call ''system'' ''/var/lib/libvirt/images/foo.qcow2''] \<and>
   fsInfo (snd (checkFs (example_env (Inr ''fstype'') (Inr [])) ''foo'' ''system'' (init ''foo'')))
     = \<lparr>hasReflink = False, fsType = []\<rparr> \<and>
   console (snd (checkFs (example_env (Inr ''fstype'') (Inr [])) ''foo'' ''system'' (init ''foo''))) = []"
  using short_type_output_is_silent
          [of "example_env (Inr ''fstype'') (Inr [])" "''foo''" "''system''" example_output
              "''fstype''" "init ''foo''"]
  by (simp add: example_locate init_def)

text \<open>
  Claim C10. A name that is not empty after trimming passes validation, and the
  argument after \<^verbatim>\<open>--name\<close> is the name as typed, its white space included.
\<close>

theorem name_passed_untrimmed:
  assumes "trim (newVmName s) \<noteq> []"
  shows "validateParams s = [] \<and>
         new_spawns s (onClone name connectionName s) = [clone_call name connectionName s] \<and>
         new_spawns s (step name connectionName SubmitForm s) = [clone_call name connectionName s] \<and>
         take 7 (argv (clone_call name connectionName s))
           = [''virt-clone'', ''--connect'', ''qemu:///'' @ connectionName,
              ''--original'', name, ''--name'', newVmName s]"
  using assms
  by (simp add: onClone_valid validateParams_eq clone_call_def cloneArgs_def)

theorem name_passed_untrimmed_witness:
  "trim '' foo '' = ''foo'' \<and>
   map argv (spawned (run ''foo'' ''system'' [ChangeName '' foo '', SubmitForm] (init ''foo'')))
     = [[''virt-clone'', ''--connect'', ''qemu:///system'', ''--original'', ''foo'',
         ''--name'', '' foo '', ''--auto-clone'']]"
  using name_passed_untrimmed[of "setNewVmName '' foo '' (init ''foo'')" "''foo''" "''system''"]
  by (simp add: setNewVmName_def init_def trim_def is_space_def new_spawns_def
      clone_call_def cloneArgs_def)

end
